theory Spec2Isabelle
  imports Complex_Main "HOL-Library.Multiset" "HOL-Library.Sublist" "HOL-Library.AList"
    "HOL-Library.Product_Lexorder"
begin

section \<open>Values, documents, errors\<close>

text \<open>
  The handlers of \<^verbatim>\<open>server/server.js\<close>, \<^verbatim>\<open>api/forms.js\<close> and
  \<^verbatim>\<open>api/csv-import.js\<close> move JSON objects between HTTP requests and one MongoDB
  collection through Mongoose. A value is a JSON value, or one of the two BSON values the
  handlers meet in stored documents: a date (milliseconds since the epoch) and an ObjectId
  (its 24 hexadecimal digits). An object is an association list, as a JavaScript object
  keeps its keys in order; the first binding of a key is the one that counts.

  JavaScript numbers are modelled by mathematical integers: the model is exact while every
  number is an integer of magnitude below \<open>2^53\<close>.
\<close>

datatype val =
    VNull
  | VBool bool
  | VNum int
  | VStr string
  | VArr "val list"
  | VObj "(string \<times> val) list"
  | VDate int
  | VOid string

type_synonym obj = "(string \<times> val) list"

text \<open>
  What a handler or a library call can throw. The argument of a cast or validation error is
  the path that failed.
\<close>

datatype error =
    CastError string
  | ValidationError string
  | TypeError
  | MongoServerError string

text \<open>
  A library call returns a value, throws, or is given an input whose treatment by Mongoose
  this development does not describe (\<open>Beyond\<close>): nothing is claimed there.
\<close>

datatype 'a outcome = Ok 'a | Throw error | Beyond

subsection \<open>JavaScript helpers\<close>

definition truthy :: "val \<Rightarrow> bool" where
  "truthy v = (case v of
       VNull \<Rightarrow> False
     | VBool b \<Rightarrow> b
     | VNum n \<Rightarrow> n \<noteq> 0
     | VStr s \<Rightarrow> s \<noteq> []
     | _ \<Rightarrow> True)"

definition truthy_str :: "string option \<Rightarrow> bool" where
  "truthy_str q = (case q of None \<Rightarrow> False | Some s \<Rightarrow> s \<noteq> [])"

definition digit_char :: "nat \<Rightarrow> char" where
  "digit_char d = char_of (48 + d)"

fun show_nat :: "nat \<Rightarrow> string" where
  "show_nat n = (if n < 10 then [digit_char n] else show_nat (n div 10) @ [digit_char (n mod 10)])"

declare show_nat.simps [simp del]

definition show_int :: "int \<Rightarrow> string" where
  "show_int i = (if i < 0 then CHR ''-'' # show_nat (nat (- i)) else show_nat (nat i))"

definition is_digit :: "char \<Rightarrow> bool" where
  "is_digit c = (48 \<le> (of_char c :: nat) \<and> (of_char c :: nat) \<le> 57)"

definition digit_val :: "char \<Rightarrow> nat" where
  "digit_val c = of_char c - 48"

text \<open>
  \<^verbatim>\<open>Number(s)\<close> for a query-string value, on the strings that are decimal numerals;
  other strings (signs, fractions, exponents, blanks, the empty string) are left out.
\<close>

definition toNumber :: "string \<Rightarrow> nat option" where
  "toNumber s = (if s \<noteq> [] \<and> list_all is_digit s
                 then Some (foldl (\<lambda>a c. 10 * a + digit_val c) 0 s) else None)"

text \<open>\<^verbatim>\<open>{...row}\<close>: the own enumerable properties of a value.\<close>

definition spread :: "val \<Rightarrow> obj" where
  "spread v = (case v of
       VObj kvs \<Rightarrow> kvs
     | VArr xs \<Rightarrow> map (\<lambda>i. (show_nat i, xs ! i)) [0 ..< length xs]
     | VStr s \<Rightarrow> map (\<lambda>i. (show_nat i, VStr [s ! i])) [0 ..< length s]
     | _ \<Rightarrow> [])"

text \<open>\<^verbatim>\<open>{...o, k: v}\<close>: the key keeps its place when \<open>o\<close> has it, and comes last otherwise.\<close>

definition with_prop :: "obj \<Rightarrow> string \<Rightarrow> val \<Rightarrow> obj" where
  "with_prop ob k v = AList.update k v ob"

subsection \<open>ObjectIds\<close>

definition hex_char :: "nat \<Rightarrow> char" where
  "hex_char d = (if d < 10 then char_of (48 + d) else char_of (87 + d))"

primrec hex_digits :: "nat \<Rightarrow> nat \<Rightarrow> string" where
  "hex_digits 0 n = []"
| "hex_digits (Suc w) n = hex_digits w (n div 16) @ [hex_char (n mod 16)]"

definition is_hex :: "char \<Rightarrow> bool" where
  "is_hex c = (let n = (of_char c :: nat) in
     (48 \<le> n \<and> n \<le> 57) \<or> (65 \<le> n \<and> n \<le> 70) \<or> (97 \<le> n \<and> n \<le> 102))"

definition lower_char :: "char \<Rightarrow> char" where
  "lower_char c = (let n = (of_char c :: nat) in if 65 \<le> n \<and> n \<le> 90 then char_of (n + 32) else c)"

text \<open>
  The cast of a request's identifier to an ObjectId: 24 hexadecimal digits, or (the driver
  of the Mongoose 5 generation, which the connection options of the source belong to) a
  string of 12 one-byte characters, read as the 12 bytes. Everything else fails to cast.
\<close>

definition castObjectId :: "string \<Rightarrow> string option" where
  "castObjectId s =
     (if length s = 24 \<and> list_all is_hex s then Some (map lower_char s)
      else if length s = 12 \<and> list_all (\<lambda>c. (of_char c :: nat) < 128) s
        then Some (concat (map (\<lambda>c. hex_digits 2 (of_char c)) s))
      else None)"

section \<open>The schema\<close>

datatype stype = SString | SBoolean | SDate | SMixed

datatype dflt = DateNow | Const val

text \<open>
  A Mongoose schema, as far as the handlers use one: the declared paths with their types,
  the defaults and the \<^verbatim>\<open>enum\<close> validators. Both schemas of the source have
  \<^verbatim>\<open>timestamps: true\<close> and \<^verbatim>\<open>strict: false\<close>, so these two options are built
  into the operations below.
\<close>

record schema =
  s_paths :: "(string \<times> stype) list"
  s_defaults :: "(string \<times> dflt) list"
  s_enum :: "(string \<times> string list) list"

definition formSubmissionSchema :: schema where
  "formSubmissionSchema = \<lparr>
     s_paths = [(''name'', SString), (''email'', SString), (''userType'', SString),
       (''school'', SString), (''grade'', SString), (''major'', SString),
       (''company'', SString), (''position'', SString), (''experience'', SString),
       (''skills'', SString), (''businessName'', SString), (''industry'', SString),
       (''employees'', SString), (''revenue'', SString), (''interests'', SString),
       (''newsletter'', SBoolean), (''submittedAt'', SDate), (''source'', SString),
       (''csvData'', SMixed)],
     s_defaults = [(''submittedAt'', DateNow), (''source'', Const (VStr ''form''))],
     s_enum = [(''source'', [''form'', ''csv''])] \<rparr>"

text \<open>
  The schema \<^verbatim>\<open>api/csv-import.js\<close> registers when no model of that name is registered
  in its process: \<^verbatim>\<open>new mongoose.Schema({}, { strict: false, timestamps: true })\<close>.
\<close>

definition fallbackSchema :: schema where
  "fallbackSchema = \<lparr> s_paths = [], s_defaults = [], s_enum = [] \<rparr>"

section \<open>The model of Mongoose and of the collection\<close>

text \<open>
  Mongoose and MongoDB are not part of the repository. What follows states the behaviour of
  the calls the handlers make, for the inputs where that behaviour is settled; every other
  input is \<open>Beyond\<close>. The storage connection is taken to be established.
\<close>

record db =
  docs :: "obj list"
  oid_counter :: nat

text \<open>
  Keys to which Mongoose or MongoDB attach a meaning of their own (the identifier, the
  version key, the timestamps, operators and dotted paths) are not followed when a client
  supplies them.
\<close>

definition risky_key :: "string \<Rightarrow> bool" where
  "risky_key k = (k = [] \<or> hd k = CHR ''$'' \<or> CHR ''.'' \<in> set k)"

definition reserved :: "string \<Rightarrow> bool" where
  "reserved k = (risky_key k \<or>
     k \<in> set [''_id'', ''id'', ''__v'', ''createdAt'', ''updatedAt'', ''__proto__''])"

text \<open>
  Nor are the values that do not reach the collection as they are given: an object without
  properties, which the default \<^verbatim>\<open>minimize\<close> option drops, and an object with a key of the
  risky kind, at any depth.
\<close>

fun unfollowed :: "val \<Rightarrow> bool" where
  "unfollowed (VObj kvs) =
     (kvs = [] \<or> list_ex (\<lambda>kv. risky_key (fst kv) \<or> unfollowed (snd kv)) kvs)"
| "unfollowed (VArr xs) = list_ex unfollowed xs"
| "unfollowed v = False"

datatype cast_result = Casts val | Fails | Unsettled

definition cast :: "stype \<Rightarrow> val \<Rightarrow> cast_result" where
  "cast t v = (case t of
       SMixed \<Rightarrow> Casts v
     | SString \<Rightarrow> (case v of
           VNull \<Rightarrow> Casts VNull
         | VStr s \<Rightarrow> Casts (VStr s)
         | VNum n \<Rightarrow> Casts (VStr (show_int n))
         | VBool b \<Rightarrow> Casts (VStr (if b then ''true'' else ''false''))
         | VArr xs \<Rightarrow> Fails
         | VObj kvs \<Rightarrow> (if map_of kvs ''_id'' = None \<and> map_of kvs ''toString'' = None
                         then Fails else Unsettled)
         | _ \<Rightarrow> Unsettled)
     | SBoolean \<Rightarrow> (case v of
           VNull \<Rightarrow> Casts VNull
         | VBool b \<Rightarrow> Casts (VBool b)
         | VStr s \<Rightarrow> (if s \<in> set [''true'', ''1'', ''yes''] then Casts (VBool True)
                       else if s \<in> set [''false'', ''0'', ''no''] then Casts (VBool False)
                       else Fails)
         | VNum n \<Rightarrow> (if n = 1 then Casts (VBool True)
                       else if n = 0 then Casts (VBool False) else Fails)
         | VArr xs \<Rightarrow> Fails
         | VObj kvs \<Rightarrow> Fails
         | _ \<Rightarrow> Unsettled)
     | SDate \<Rightarrow> (case v of
           VNull \<Rightarrow> Casts VNull
         | VDate d \<Rightarrow> Casts (VDate d)
         | _ \<Rightarrow> Unsettled))"

text \<open>
  The cast of one property against the schema. An undeclared path is kept as it is
  (\<^verbatim>\<open>strict: false\<close>). The error is built by the caller: a \<open>ValidationError\<close> when a
  document is saved, a \<open>CastError\<close> in an update.
\<close>

definition cast_field :: "schema \<Rightarrow> (string \<Rightarrow> error) \<Rightarrow> string \<Rightarrow> val \<Rightarrow> val outcome" where
  "cast_field S mk k v =
     (if reserved k \<or> unfollowed v then Beyond
      else case map_of (s_paths S) k of
             None \<Rightarrow> Ok v
           | Some t \<Rightarrow> (case cast t v of
                 Casts v' \<Rightarrow> Ok v'
               | Fails \<Rightarrow> Throw (mk k)
               | Unsettled \<Rightarrow> Beyond))"

fun cast_entries :: "schema \<Rightarrow> (string \<Rightarrow> error) \<Rightarrow> obj \<Rightarrow> obj outcome" where
  "cast_entries S mk [] = Ok []"
| "cast_entries S mk ((k, v) # rest) =
     (case cast_entries S mk rest of
        Beyond \<Rightarrow> Beyond
      | Throw e' \<Rightarrow> (case cast_field S mk k v of
            Beyond \<Rightarrow> Beyond | Throw e \<Rightarrow> Throw e | Ok v' \<Rightarrow> Throw e')
      | Ok rest' \<Rightarrow> (case cast_field S mk k v of
            Beyond \<Rightarrow> Beyond | Throw e \<Rightarrow> Throw e | Ok v' \<Rightarrow> Ok ((k, v') # rest')))"

definition default_val :: "int \<Rightarrow> dflt \<Rightarrow> val" where
  "default_val now d = (case d of DateNow \<Rightarrow> VDate now | Const v \<Rightarrow> v)"

definition add_default :: "int \<Rightarrow> string \<times> dflt \<Rightarrow> obj \<Rightarrow> obj" where
  "add_default now kd d =
     (if map_of d (fst kd) = None then d @ [(fst kd, default_val now (snd kd))] else d)"

text \<open>Defaults fill the declared paths a document lacks, when it is built and when it is loaded.\<close>

definition apply_defaults :: "schema \<Rightarrow> int \<Rightarrow> obj \<Rightarrow> obj" where
  "apply_defaults S now d = fold (add_default now) (s_defaults S) d"

text \<open>The \<^verbatim>\<open>enum\<close> validators, on the paths that are set.\<close>

fun check_enums :: "(string \<times> string list) list \<Rightarrow> obj \<Rightarrow> unit outcome" where
  "check_enums [] d = Ok ()"
| "check_enums ((k, allowed) # rest) d =
     (case map_of d k of
        None \<Rightarrow> check_enums rest d
      | Some (VStr s) \<Rightarrow> (if s \<in> set allowed then check_enums rest d
                          else (case check_enums rest d of Beyond \<Rightarrow> Beyond
                                | _ \<Rightarrow> Throw (ValidationError k)))
      | Some _ \<Rightarrow> Beyond)"

text \<open>
  A new ObjectId is taken from a counter kept with the state; the collection rejects an
  identifier it already holds.
\<close>

definition new_oid :: "db \<Rightarrow> string" where
  "new_oid s = hex_digits 24 (oid_counter s)"

definition doc_id :: "obj \<Rightarrow> val option" where
  "doc_id d = map_of d ''_id''"

text \<open>
  \<^verbatim>\<open>new FormSubmission(ob)\<close>: a fresh identifier, the cast properties, the defaults. A
  failed cast is kept with the document and reported when it is validated.
\<close>

definition new_document :: "schema \<Rightarrow> int \<Rightarrow> string \<Rightarrow> obj \<Rightarrow> obj outcome" where
  "new_document S now oid ob =
     (case cast_entries S ValidationError ob of
        Ok d \<Rightarrow> Ok ((''_id'', VOid oid) # apply_defaults S now d)
      | Throw e \<Rightarrow> Throw e
      | Beyond \<Rightarrow> Beyond)"

definition validate_doc :: "schema \<Rightarrow> obj outcome \<Rightarrow> obj outcome" where
  "validate_doc S r =
     (case r of
        Ok d \<Rightarrow> (case check_enums (s_enum S) d of
                   Ok u \<Rightarrow> Ok d | Throw e \<Rightarrow> Throw e | Beyond \<Rightarrow> Beyond)
      | other \<Rightarrow> other)"

definition stamp :: "int \<Rightarrow> obj \<Rightarrow> obj" where
  "stamp now d = d @ [(''createdAt'', VDate now), (''updatedAt'', VDate now), (''__v'', VNum 0)]"

text \<open>The insert into the collection: the unique index on \<^verbatim>\<open>_id\<close> rejects a duplicate.\<close>

definition insert_doc :: "db \<Rightarrow> obj \<Rightarrow> error + db" where
  "insert_doc s d =
     (if doc_id d \<in> set (map doc_id (docs s)) then Inl (MongoServerError ''E11000'')
      else Inr (s \<lparr> docs := docs s @ [d] \<rparr>))"

text \<open>\<^verbatim>\<open>new FormSubmission(ob).save()\<close>: the saved document and the new state.\<close>

definition save_new :: "schema \<Rightarrow> int \<Rightarrow> db \<Rightarrow> obj \<Rightarrow> (obj \<times> db) outcome" where
  "save_new S now s ob =
     (let s1 = s \<lparr> oid_counter := Suc (oid_counter s) \<rparr> in
      case validate_doc S (new_document S now (new_oid s) ob) of
        Ok d \<Rightarrow> (case insert_doc s1 (stamp now d) of
                   Inr s2 \<Rightarrow> Ok (stamp now d, s2)
                 | Inl e \<Rightarrow> Throw e)
      | Throw e \<Rightarrow> Throw e
      | Beyond \<Rightarrow> Beyond)"

text \<open>
  A document loaded from the collection (not a \<^verbatim>\<open>lean\<close> read) is cast against the
  schema again and given the defaults it lacks. The load is followed for the documents
  that the cast leaves as they are, which are the ones written through the schema.
\<close>

definition fits :: "schema \<Rightarrow> string \<Rightarrow> val \<Rightarrow> bool" where
  "fits S k v = (case map_of (s_paths S) k of None \<Rightarrow> True | Some t \<Rightarrow> cast t v = Casts v)"

definition conformant :: "schema \<Rightarrow> obj \<Rightarrow> bool" where
  "conformant S d = list_all (\<lambda>kv. fits S (fst kv) (snd kv)) d"

definition hydrate :: "schema \<Rightarrow> int \<Rightarrow> obj \<Rightarrow> obj option" where
  "hydrate S now d = (if conformant S d then Some (apply_defaults S now d) else None)"


definition has_id :: "string \<Rightarrow> obj \<Rightarrow> bool" where
  "has_id oid d = (doc_id d = Some (VOid oid))"

text \<open>\<^verbatim>\<open>FormSubmission.findById(id)\<close>: the cast of the identifier throws on a malformed one.\<close>

definition findById :: "schema \<Rightarrow> int \<Rightarrow> db \<Rightarrow> string \<Rightarrow> obj option outcome" where
  "findById S now s ident =
     (case castObjectId ident of
        None \<Rightarrow> Throw (CastError ''_id'')
      | Some oid \<Rightarrow> (case find (has_id oid) (docs s) of
            None \<Rightarrow> Ok None
          | Some d \<Rightarrow> (case hydrate S now d of
                Some d' \<Rightarrow> Ok (Some d') | None \<Rightarrow> Beyond)))"

text \<open>
  The update document of \<^verbatim>\<open>findByIdAndUpdate\<close>. A body without operators is a
  \<^verbatim>\<open>$set\<close> of its properties, cast against the schema and checked by the validators
  (\<^verbatim>\<open>runValidators: true\<close>) before anything is sent to the collection. Of the operators,
  a body that is one \<^verbatim>\<open>$unset\<close> is followed. A property whose value is an object is
  walked by Mongoose key by key, and is not followed.
\<close>

datatype update = SetFields obj | UnsetFields "string list"

definition is_object :: "val \<Rightarrow> bool" where
  "is_object v = (case v of VObj kvs \<Rightarrow> True | _ \<Rightarrow> False)"

definition is_operator :: "string \<Rightarrow> bool" where
  "is_operator k = (k \<noteq> [] \<and> hd k = CHR ''$'')"

definition cast_update :: "schema \<Rightarrow> obj \<Rightarrow> update outcome" where
  "cast_update S body =
     (if body = [] then Beyond
      else if list_ex (\<lambda>kv. is_operator (fst kv)) body then
        (case body of
           [(k, VObj kvs)] \<Rightarrow>
             (if k = ''$unset'' \<and> kvs \<noteq> [] \<and> \<not> list_ex (\<lambda>kv. reserved (fst kv)) kvs
              then Ok (UnsetFields (map fst kvs)) else Beyond)
         | _ \<Rightarrow> Beyond)
      else if list_ex (\<lambda>kv. is_object (snd kv)) body then Beyond
      else (case cast_entries S CastError body of
              Ok sets \<Rightarrow> (case check_enums (s_enum S) sets of
                  Ok u \<Rightarrow> Ok (SetFields sets) | Throw e \<Rightarrow> Throw e | Beyond \<Rightarrow> Beyond)
            | Throw e \<Rightarrow> Throw e
            | Beyond \<Rightarrow> Beyond))"

text \<open>
  The update applied to a stored document; \<^verbatim>\<open>timestamps: true\<close> makes every update set
  \<^verbatim>\<open>updatedAt\<close> as well.
\<close>

definition apply_update :: "int \<Rightarrow> update \<Rightarrow> obj \<Rightarrow> obj" where
  "apply_update now u d = AList.update ''updatedAt'' (VDate now)
     (case u of
        SetFields sets \<Rightarrow> foldr (\<lambda>kv. AList.update (fst kv) (snd kv)) sets d
      | UnsetFields ks \<Rightarrow> foldr AList.delete ks d)"

fun replace_first :: "(obj \<Rightarrow> bool) \<Rightarrow> obj \<Rightarrow> obj list \<Rightarrow> obj list" where
  "replace_first P d' [] = []"
| "replace_first P d' (d # ds) = (if P d then d' # ds else d # replace_first P d' ds)"

fun remove_first :: "(obj \<Rightarrow> bool) \<Rightarrow> obj list \<Rightarrow> obj list" where
  "remove_first P [] = []"
| "remove_first P (d # ds) = (if P d then ds else d # remove_first P ds)"

text \<open>\<^verbatim>\<open>findByIdAndUpdate(id, body, { new: true, runValidators: true })\<close>.\<close>

definition findByIdAndUpdate ::
    "schema \<Rightarrow> int \<Rightarrow> db \<Rightarrow> string \<Rightarrow> obj \<Rightarrow> (obj option \<times> db) outcome" where
  "findByIdAndUpdate S now s ident body =
     (case castObjectId ident of
        None \<Rightarrow> Throw (CastError ''_id'')
      | Some oid \<Rightarrow> (case cast_update S body of
            Throw e \<Rightarrow> Throw e
          | Beyond \<Rightarrow> Beyond
          | Ok u \<Rightarrow> (case find (has_id oid) (docs s) of
                None \<Rightarrow> Ok (None, s)
              | Some d \<Rightarrow> (case hydrate S now (apply_update now u d) of
                    Some d' \<Rightarrow> Ok (Some d',
                      s \<lparr> docs := replace_first (has_id oid) (apply_update now u d) (docs s) \<rparr>)
                  | None \<Rightarrow> Beyond))))"

text \<open>\<^verbatim>\<open>findByIdAndDelete(id)\<close>.\<close>

definition findByIdAndDelete :: "schema \<Rightarrow> int \<Rightarrow> db \<Rightarrow> string \<Rightarrow> (obj option \<times> db) outcome" where
  "findByIdAndDelete S now s ident =
     (case castObjectId ident of
        None \<Rightarrow> Throw (CastError ''_id'')
      | Some oid \<Rightarrow> (case find (has_id oid) (docs s) of
            None \<Rightarrow> Ok (None, s)
          | Some d \<Rightarrow> (case hydrate S now d of
                Some d' \<Rightarrow> Ok (Some d', s \<lparr> docs := remove_first (has_id oid) (docs s) \<rparr>)
              | None \<Rightarrow> Beyond)))"

text \<open>
  \<^verbatim>\<open>insertMany(obs)\<close>: every document is built and validated first, and nothing is sent
  when one of them fails; the inserts then go in order and stop at the first that the
  collection rejects, the earlier ones staying in.
\<close>

fun build_all :: "schema \<Rightarrow> int \<Rightarrow> nat \<Rightarrow> obj list \<Rightarrow> obj list outcome" where
  "build_all S now n [] = Ok []"
| "build_all S now n (ob # obs) =
     (case build_all S now (Suc n) obs of
        Beyond \<Rightarrow> Beyond
      | Throw e' \<Rightarrow> (case validate_doc S (new_document S now (hex_digits 24 n) ob) of
            Beyond \<Rightarrow> Beyond | Throw e \<Rightarrow> Throw e | Ok d \<Rightarrow> Throw e')
      | Ok ds \<Rightarrow> (case validate_doc S (new_document S now (hex_digits 24 n) ob) of
            Beyond \<Rightarrow> Beyond | Throw e \<Rightarrow> Throw e | Ok d \<Rightarrow> Ok (stamp now d # ds)))"

fun insert_all :: "db \<Rightarrow> obj list \<Rightarrow> error option \<times> db" where
  "insert_all s [] = (None, s)"
| "insert_all s (d # ds) =
     (case insert_doc s d of
        Inr s' \<Rightarrow> insert_all s' ds
      | Inl e \<Rightarrow> (Some e, s))"

definition insertMany :: "schema \<Rightarrow> int \<Rightarrow> db \<Rightarrow> obj list \<Rightarrow> (obj list outcome \<times> db) option" where
  "insertMany S now s obs =
     (let s1 = s \<lparr> oid_counter := oid_counter s + length obs \<rparr> in
      case build_all S now (oid_counter s) obs of
        Beyond \<Rightarrow> None
      | Throw e \<Rightarrow> Some (Throw e, s1)
      | Ok ds \<Rightarrow> (case insert_all s1 ds of
            (None, s2) \<Rightarrow> Some (Ok ds, s2)
          | (Some e, s2) \<Rightarrow> Some (Throw e, s2)))"

subsection \<open>Queries\<close>

text \<open>
  An equality condition on a String path with a string: the stored value is that string,
  or an array holding it.
\<close>

definition matches_eq :: "val option \<Rightarrow> string \<Rightarrow> bool" where
  "matches_eq f s = (case f of
       Some (VStr t) \<Rightarrow> t = s
     | Some (VArr xs) \<Rightarrow> VStr s \<in> set xs
     | _ \<Rightarrow> False)"

type_synonym conditions = "(string \<times> string) list"

definition matches :: "conditions \<Rightarrow> obj \<Rightarrow> bool" where
  "matches flt d = list_all (\<lambda>c. matches_eq (map_of d (fst c)) (snd c)) flt"

definition countDocuments :: "db \<Rightarrow> conditions \<Rightarrow> nat" where
  "countDocuments s flt = length (filter (matches flt) (docs s))"

text \<open>
  The sort of the storage engine is a parameter. For \<^verbatim>\<open>sort({ submittedAt: -1 })\<close>
  MongoDB promises the documents it was given, each date before every earlier date and
  before the documents that have no date (absent or null); the order it leaves between
  documents of equal key is its own. Nothing is asked about a document whose
  \<^verbatim>\<open>submittedAt\<close> is of another type, which the schema does not write.
\<close>

record engine =
  sort_docs :: "obj list \<Rightarrow> obj list"
  sort_groups :: "(val \<times> nat) list \<Rightarrow> (val \<times> nat) list"

datatype skey = NoDate | At int | OtherKey

definition submittedAt_key :: "obj \<Rightarrow> skey" where
  "submittedAt_key d = (case map_of d ''submittedAt'' of
       None \<Rightarrow> NoDate
     | Some VNull \<Rightarrow> NoDate
     | Some (VDate t) \<Rightarrow> At t
     | Some _ \<Rightarrow> OtherKey)"



subsection \<open>Regular expressions\<close>














section \<open>Responses\<close>

text \<open>
  The envelope \<^verbatim>\<open>{success, message, data, error, pagination, count}\<close> with the HTTP status
  and the \<^verbatim>\<open>Allow\<close> header; the fields \<open>payload\<close>, \<open>err\<close>, \<open>paging\<close> and \<open>found\<close> stand for
  \<^verbatim>\<open>data\<close>, \<^verbatim>\<open>error\<close>, \<^verbatim>\<open>pagination\<close> and \<^verbatim>\<open>count\<close>. The \<^verbatim>\<open>error\<close> property of a
  failure response is either the message of the error that was thrown, or a text fixed in
  the source.
\<close>

datatype errtext = Detail error | Fixed string

record pagination =
  current :: nat
  pages :: "int option"
  total :: nat

record analytics =
  totalSubmissions :: nat
  bySource_form :: nat
  bySource_csv :: nat
  userTypeDistribution :: "(val \<times> nat) list"
  recentSubmissions :: "obj list"

datatype payload = One obj | Many "obj list" | Stats analytics

record response =
  status :: nat
  allow :: "string list"
  success :: bool
  message :: "string option"
  payload :: "payload option"
  err :: "errtext option"
  paging :: "pagination option"
  found :: "nat option"

definition reply :: "nat \<Rightarrow> bool \<Rightarrow> string option \<Rightarrow> response" where
  "reply st ok msg = \<lparr> status = st, allow = [], success = ok, message = msg,
     payload = None, err = None, paging = None, found = None \<rparr>"

record env =
  now :: int
  node_env :: "string option"

section \<open>The list query shared by both list routes\<close>

text \<open>
  \<^verbatim>\<open>find(filter).sort({ submittedAt: -1 }).limit(limit * 1).skip((page - 1) * limit).lean()\<close>:
  the collection sorts, then skips, then limits; a limit of zero is no limit, a negative
  skip is rejected by the server.
\<close>

definition find_page :: "engine \<Rightarrow> db \<Rightarrow> conditions \<Rightarrow> nat \<Rightarrow> int \<Rightarrow> obj list outcome" where
  "find_page eng s flt n skp =
     (if skp < 0 then Throw (MongoServerError ''skip'')
      else Ok (let rest = drop (nat skp) (sort_docs eng (filter (matches flt) (docs s)))
               in if n = 0 then rest else take n rest))"

definition build_filter :: "string option \<Rightarrow> string option \<Rightarrow> conditions" where
  "build_filter source userType =
     (if truthy_str source then [(''source'', the source)] else []) @
     (if truthy_str userType then [(''userType'', the userType)] else [])"

text \<open>\<^verbatim>\<open>Math.ceil(total / limit)\<close>; the quotient by zero is not a finite number and is sent as null.\<close>

definition ceil_pages :: "nat \<Rightarrow> nat \<Rightarrow> int option" where
  "ceil_pages tot n = (if n = 0 then None else Some \<lceil>(of_nat tot :: rat) / of_nat n\<rceil>)"

definition query_number :: "nat \<Rightarrow> string option \<Rightarrow> nat option" where
  "query_number dflt q = (case q of None \<Rightarrow> Some dflt | Some t \<Rightarrow> toNumber t)"

definition list_forms ::
    "nat \<Rightarrow> engine \<Rightarrow> db \<Rightarrow> string option \<Rightarrow> string option \<Rightarrow> string option \<Rightarrow> string option
       \<Rightarrow> response outcome" where
  "list_forms default_limit eng s page limit source userType =
     (case (query_number 1 page, query_number default_limit limit) of
        (Some p, Some l) \<Rightarrow>
          (case find_page eng s (build_filter source userType) l ((int p - 1) * int l) of
             Ok forms \<Rightarrow> Ok ((reply 200 True None) \<lparr>
                 payload := Some (Many forms),
                 paging := Some \<lparr> current = p,
                   pages = ceil_pages (countDocuments s (build_filter source userType)) l,
                   total = countDocuments s (build_filter source userType) \<rparr> \<rparr>)
           | Throw e \<Rightarrow> Throw e
           | Beyond \<Rightarrow> Beyond)
      | _ \<Rightarrow> Beyond)"

section \<open>Request handling\<close>

text \<open>
  The body of a \<^verbatim>\<open>try\<close> block either answers or throws, and leaves a state; it gives
  nothing (\<open>None\<close>) where the library calls are not followed. The pieces below are the
  statements that the routes of \<^verbatim>\<open>server/server.js\<close> and the function
  \<^verbatim>\<open>api/forms.js\<close> have in common, word for word.
\<close>

type_synonym attempt = "((response + error) \<times> db) option"

definition find_one :: "string \<Rightarrow> schema \<Rightarrow> env \<Rightarrow> db \<Rightarrow> string \<Rightarrow> attempt" where
  "find_one missing M ev s ident =
     (case findById M (now ev) s ident of
        Ok None \<Rightarrow> Some (Inl (reply 404 False (Some missing)), s)
      | Ok (Some form) \<Rightarrow> Some (Inl ((reply 200 True None) \<lparr> payload := Some (One form) \<rparr>), s)
      | Throw e \<Rightarrow> Some (Inr e, s)
      | Beyond \<Rightarrow> None)"

definition list_page ::
    "nat \<Rightarrow> engine \<Rightarrow> db \<Rightarrow> string option \<Rightarrow> string option \<Rightarrow> string option \<Rightarrow> string option
       \<Rightarrow> attempt" where
  "list_page default_limit eng s page limit source userType =
     (case list_forms default_limit eng s page limit source userType of
        Ok r \<Rightarrow> Some (Inl r, s)
      | Throw e \<Rightarrow> Some (Inr e, s)
      | Beyond \<Rightarrow> None)"

text \<open>\<^verbatim>\<open>new FormSubmission({ ...body, source: 'form' }).save()\<close> and the answer 201.\<close>

definition submit_form :: "schema \<Rightarrow> env \<Rightarrow> db \<Rightarrow> obj \<Rightarrow> attempt" where
  "submit_form M ev s body =
     (case save_new M (now ev) s (with_prop body ''source'' (VStr ''form'')) of
        Ok (savedForm, s') \<Rightarrow>
          Some (Inl ((reply 201 True (Some ''Form submitted successfully!''))
                       \<lparr> payload := Some (One savedForm) \<rparr>), s')
      | Throw e \<Rightarrow> Some (Inr e, s \<lparr> oid_counter := Suc (oid_counter s) \<rparr>)
      | Beyond \<Rightarrow> None)"

text \<open>\<^verbatim>\<open>csvData.map(row => ({ ...row, source: 'csv', csvData: row }))\<close>\<close>

definition csv_submission :: "val \<Rightarrow> obj" where
  "csv_submission row = with_prop (with_prop (spread row) ''source'' (VStr ''csv'')) ''csvData'' row"

text \<open>\<^verbatim>\<open>insertMany(submissions)\<close> and the answer 201 with the number of saved documents.\<close>

definition import_submissions :: "schema \<Rightarrow> env \<Rightarrow> db \<Rightarrow> obj list \<Rightarrow> attempt" where
  "import_submissions M ev s submissions =
     (case insertMany M (now ev) s submissions of
        Some (Ok savedSubmissions, s') \<Rightarrow>
          Some (Inl ((reply 201 True
                  (Some (show_nat (length savedSubmissions) @ '' records imported successfully!'')))
                       \<lparr> payload := Some (Many savedSubmissions) \<rparr>), s')
      | Some (Throw e, s') \<Rightarrow> Some (Inr e, s')
      | _ \<Rightarrow> None)"

definition update_one :: "string \<Rightarrow> schema \<Rightarrow> env \<Rightarrow> db \<Rightarrow> string \<Rightarrow> obj \<Rightarrow> attempt" where
  "update_one missing M ev s ident body =
     (case findByIdAndUpdate M (now ev) s ident body of
        Ok (None, s') \<Rightarrow> Some (Inl (reply 404 False (Some missing)), s')
      | Ok (Some updatedForm, s') \<Rightarrow>
          Some (Inl ((reply 200 True (Some ''Form updated successfully!''))
                       \<lparr> payload := Some (One updatedForm) \<rparr>), s')
      | Throw e \<Rightarrow> Some (Inr e, s)
      | Beyond \<Rightarrow> None)"

definition delete_one :: "string \<Rightarrow> string \<Rightarrow> schema \<Rightarrow> env \<Rightarrow> db \<Rightarrow> string \<Rightarrow> attempt" where
  "delete_one missing deleted M ev s ident =
     (case findByIdAndDelete M (now ev) s ident of
        Ok (None, s') \<Rightarrow> Some (Inl (reply 404 False (Some missing)), s')
      | Ok (Some deletedForm, s') \<Rightarrow>
          Some (Inl ((reply 200 True (Some deleted)) \<lparr> payload := Some (One deletedForm) \<rparr>), s')
      | Throw e \<Rightarrow> Some (Inr e, s)
      | Beyond \<Rightarrow> None)"

section \<open>The routes of \<^verbatim>\<open>server/server.js\<close>\<close>

text \<open>
  Each route catches what its body throws and answers 500 with a message of its own and
  \<^verbatim>\<open>error: error.message\<close>.
\<close>

definition catch_route :: "string \<Rightarrow> attempt \<Rightarrow> (response \<times> db) option" where
  "catch_route msg a =
     (case a of
        None \<Rightarrow> None
      | Some (Inl r, s) \<Rightarrow> Some (r, s)
      | Some (Inr e, s) \<Rightarrow> Some ((reply 500 False (Some msg)) \<lparr> err := Some (Detail e) \<rparr>, s))"


definition get_api_forms_id :: "env \<Rightarrow> db \<Rightarrow> string \<Rightarrow> (response \<times> db) option" where
  "get_api_forms_id ev s ident =
     catch_route ''Error fetching form submission''
       (find_one ''Form submission not found'' formSubmissionSchema ev s ident)"

definition post_api_forms :: "env \<Rightarrow> db \<Rightarrow> obj \<Rightarrow> (response \<times> db) option" where
  "post_api_forms ev s body =
     catch_route ''Error saving form submission'' (submit_form formSubmissionSchema ev s body)"

definition post_api_forms_csv :: "env \<Rightarrow> db \<Rightarrow> obj \<Rightarrow> (response \<times> db) option" where
  "post_api_forms_csv ev s body =
     catch_route ''Error importing CSV data''
       (case map_of body ''csvData'' of
          Some (VArr csvData) \<Rightarrow>
            import_submissions formSubmissionSchema ev s (map csv_submission csvData)
        | _ \<Rightarrow> Some (Inl (reply 400 False (Some ''Invalid CSV data format'')), s))"

definition put_api_forms_id :: "env \<Rightarrow> db \<Rightarrow> string \<Rightarrow> obj \<Rightarrow> (response \<times> db) option" where
  "put_api_forms_id ev s ident body =
     catch_route ''Error updating form submission''
       (update_one ''Form submission not found'' formSubmissionSchema ev s ident body)"

definition delete_api_forms_id :: "env \<Rightarrow> db \<Rightarrow> string \<Rightarrow> (response \<times> db) option" where
  "delete_api_forms_id ev s ident =
     catch_route ''Error deleting form submission''
       (delete_one ''Form submission not found'' ''Form submission deleted successfully!''
          formSubmissionSchema ev s ident)"





text \<open>
  The error-handling middleware and the handler of unknown routes, which close the server.
  The middleware sees only what no route has caught; it sends the message of the error in
  development mode alone.
\<close>

definition error_middleware :: "env \<Rightarrow> error \<Rightarrow> response" where
  "error_middleware ev e = (reply 500 False (Some ''Something went wrong!''))
     \<lparr> err := Some (if node_env ev = Some ''development'' then Detail e
                      else Fixed ''Internal server error'') \<rparr>"

definition route_not_found :: response where
  "route_not_found = reply 404 False (Some ''Route not found'')"

section \<open>The function \<^verbatim>\<open>api/forms.js\<close>\<close>

record request =
  req_method :: string
  q_id :: "string option"
  q_page :: "string option"
  q_limit :: "string option"
  q_source :: "string option"
  q_userType :: "string option"
  body :: obj

text \<open>
  The \<^verbatim>\<open>switch\<close> inside the \<^verbatim>\<open>try\<close> block. The parameter \<open>M\<close> is the model bound when
  the module is loaded. \<^verbatim>\<open>body.csvData.map\<close> is a function only on an array: on any other
  truthy value the call throws a \<open>TypeError\<close>.
\<close>

definition handler_switch :: "schema \<Rightarrow> env \<Rightarrow> engine \<Rightarrow> db \<Rightarrow> request \<Rightarrow> attempt" where
  "handler_switch M ev eng s req =
     (if req_method req = ''GET'' then
        (if truthy_str (q_id req) then find_one ''Form not found'' M ev s (the (q_id req))
         else list_page 50 eng s (q_page req) (q_limit req) (q_source req) (q_userType req))
      else if req_method req = ''POST'' then
        (if (case map_of (body req) ''csvData'' of None \<Rightarrow> False | Some c \<Rightarrow> truthy c) then
           (case map_of (body req) ''csvData'' of
              Some (VArr csvData) \<Rightarrow> import_submissions M ev s (map csv_submission csvData)
            | _ \<Rightarrow> Some (Inr TypeError, s))
         else submit_form M ev s (body req))
      else if req_method req = ''PUT'' then
        (if \<not> truthy_str (q_id req) then
           Some (Inl (reply 400 False (Some ''Form ID required'')), s)
         else update_one ''Form not found'' M ev s (the (q_id req)) (body req))
      else if req_method req = ''DELETE'' then
        (if \<not> truthy_str (q_id req) then
           Some (Inl (reply 400 False (Some ''Form ID required'')), s)
         else delete_one ''Form not found'' ''Form deleted successfully!'' M ev s (the (q_id req)))
      else
        Some (Inl ((reply 405 False (Some (''Method '' @ req_method req @ '' not allowed'')))
                     \<lparr> allow := [''GET'', ''POST'', ''PUT'', ''DELETE''] \<rparr>), s))"

text \<open>
  The \<^verbatim>\<open>catch\<close> clause: the message of the error is sent only when
  \<^verbatim>\<open>process.env.NODE_ENV === 'development'\<close>.
\<close>

definition handler :: "schema \<Rightarrow> env \<Rightarrow> engine \<Rightarrow> db \<Rightarrow> request \<Rightarrow> (response \<times> db) option" where
  "handler M ev eng s req =
     (case handler_switch M ev eng s req of
        None \<Rightarrow> None
      | Some (Inl r, s') \<Rightarrow> Some (r, s')
      | Some (Inr e, s') \<Rightarrow>
          Some ((reply 500 False (Some ''Internal server error''))
                  \<lparr> err := Some (if node_env ev = Some ''development'' then Detail e
                                   else Fixed ''Something went wrong'') \<rparr>, s'))"

section \<open>The function \<^verbatim>\<open>api/csv-import.js\<close>\<close>

text \<open>
  The model is looked up in the registry of the process (\<open>registered\<close>), and built from
  the empty schema when the lookup throws. The rows get \<^verbatim>\<open>submittedAt: new Date()\<close>.
\<close>

definition csv_import_submission :: "int \<Rightarrow> val \<Rightarrow> obj" where
  "csv_import_submission t row = with_prop (csv_submission row) ''submittedAt'' (VDate t)"

definition csv_import_handler ::
    "schema option \<Rightarrow> env \<Rightarrow> db \<Rightarrow> string \<Rightarrow> obj \<Rightarrow> (response \<times> db) option" where
  "csv_import_handler registered ev s meth reqBody =
     (if meth \<noteq> ''POST'' then Some (reply 405 False (Some ''Method not allowed''), s)
      else catch_route ''Error importing CSV data''
        (case map_of reqBody ''csvData'' of
           Some (VArr csvData) \<Rightarrow>
             import_submissions (case registered of Some M \<Rightarrow> M | None \<Rightarrow> fallbackSchema)
               ev s (map (csv_import_submission (now ev)) csvData)
         | _ \<Rightarrow> Some (Inl (reply 400 False (Some ''Invalid CSV data format'')), s)))"

section \<open>Notions used to state the properties\<close>

definition status_of :: "(response \<times> db) option \<Rightarrow> nat option" where
  "status_of a = map_option (\<lambda>rs. status (fst rs)) a"

definition not_array :: "val \<Rightarrow> bool" where
  "not_array v = (case v of VArr xs \<Rightarrow> False | _ \<Rightarrow> True)"

text \<open>An identifier in the canonical form of an ObjectId, and one that is no ObjectId at all.\<close>

definition hex24 :: "string \<Rightarrow> bool" where
  "hex24 ident = (length ident = 24 \<and> list_all is_hex ident)"

definition malformed :: "string \<Rightarrow> bool" where
  "malformed ident = (ident \<noteq> [] \<and> castObjectId ident = None)"

definition get_request :: "string \<Rightarrow> request" where
  "get_request ident = \<lparr> req_method = ''GET'', q_id = Some ident, q_page = None, q_limit = None,
     q_source = None, q_userType = None, body = [] \<rparr>"

definition put_request :: "string \<Rightarrow> obj \<Rightarrow> request" where
  "put_request ident b = \<lparr> req_method = ''PUT'', q_id = Some ident, q_page = None, q_limit = None,
     q_source = None, q_userType = None, body = b \<rparr>"

definition delete_request :: "string \<Rightarrow> request" where
  "delete_request ident = \<lparr> req_method = ''DELETE'', q_id = Some ident, q_page = None,
     q_limit = None, q_source = None, q_userType = None, body = [] \<rparr>"

definition post_request :: "obj \<Rightarrow> request" where
  "post_request b = \<lparr> req_method = ''POST'', q_id = None, q_page = None, q_limit = None,
     q_source = None, q_userType = None, body = b \<rparr>"


subsection \<open>Sample data\<close>

definition production :: env where
  "production = \<lparr> now = 2000, node_env = Some ''production'' \<rparr>"

definition empty_db :: db where
  "empty_db = \<lparr> docs = [], oid_counter = 0 \<rparr>"

text \<open>
  An engine that keeps the promise of the sort and returns documents of equal key in the
  reverse of the order it was given them.
\<close>

definition date_rank :: "obj \<Rightarrow> nat \<times> int" where
  "date_rank d = (case submittedAt_key d of At t \<Rightarrow> (1, t) | _ \<Rightarrow> (0, 0))"

definition reversing_engine :: engine where
  "reversing_engine = \<lparr> sort_docs = (\<lambda>xs. rev (sort_key date_rank xs)),
     sort_groups = (\<lambda>gs. rev (sort_key snd gs)) \<rparr>"



definition first_form :: obj where
  "first_form = [(''_id'', VOid ''000000000000000000000000''), (''name'', VStr ''Ann''),
     (''source'', VStr ''form''), (''submittedAt'', VDate 2000), (''createdAt'', VDate 2000),
     (''updatedAt'', VDate 2000), (''__v'', VNum 0)]"






definition one_form :: db where
  "one_form = \<lparr> docs = [first_form], oid_counter = 1 \<rparr>"





text \<open>
  The form fields the schema declares, the metadata apart; and the test of the function on
  the body of a POST.
\<close>

definition core_fields :: "string list" where
  "core_fields = [''name'', ''email'', ''userType'', ''school'', ''grade'', ''major'', ''company'',
     ''position'', ''experience'', ''skills'', ''businessName'', ''industry'', ''employees'',
     ''revenue'', ''interests'', ''newsletter'']"

definition has_csvData :: "obj \<Rightarrow> bool" where
  "has_csvData b = (case map_of b ''csvData'' of None \<Rightarrow> False | Some c \<Rightarrow> truthy c)"

definition found_form :: "obj \<Rightarrow> response" where
  "found_form d = (reply 200 True None) \<lparr> payload := Some (One d) \<rparr>"

definition untyped_form :: obj where
  "untyped_form = [(''name'', VNum 42), (''newsletter'', VStr ''yes'')]"

definition untyped_form_saved :: obj where
  "untyped_form_saved = [(''_id'', VOid ''000000000000000000000000''), (''name'', VStr ''42''),
     (''newsletter'', VBool True), (''source'', VStr ''form''), (''submittedAt'', VDate 2000),
     (''createdAt'', VDate 2000), (''updatedAt'', VDate 2000), (''__v'', VNum 0)]"


definition bad_row_import :: obj where
  "bad_row_import = [(''csvData'', VArr [VObj [(''name'', VStr ''Ann''), (''newsletter'', VStr ''maybe'')]])]"









section \<open>Identifiers: not found, and malformed\<close>

lemma status_reply [simp]: "status (reply st ok msg) = st"
  by (simp add: reply_def)

lemma castObjectId_hex24: "hex24 ident \<Longrightarrow> castObjectId ident = Some (map lower_char ident)"
  by (simp add: hex24_def castObjectId_def)

lemma hex24_nonempty: "hex24 ident \<Longrightarrow> ident \<noteq> []"
  by (auto simp: hex24_def)

lemma find_one_absent:
  "castObjectId ident = Some oid \<Longrightarrow> find (has_id oid) (docs s) = None \<Longrightarrow>
   find_one msg M ev s ident = Some (Inl (reply 404 False (Some msg)), s)"
  by (simp add: find_one_def findById_def)

lemma delete_one_absent:
  "castObjectId ident = Some oid \<Longrightarrow> find (has_id oid) (docs s) = None \<Longrightarrow>
   delete_one msg del M ev s ident = Some (Inl (reply 404 False (Some msg)), s)"
  by (simp add: delete_one_def findByIdAndDelete_def)

lemma update_one_absent:
  "castObjectId ident = Some oid \<Longrightarrow> find (has_id oid) (docs s) = None \<Longrightarrow>
   cast_update M b = Ok u \<Longrightarrow>
   update_one msg M ev s ident b = Some (Inl (reply 404 False (Some msg)), s)"
  by (simp add: update_one_def findByIdAndUpdate_def)

lemma find_one_malformed:
  "castObjectId ident = None \<Longrightarrow> find_one msg M ev s ident = Some (Inr (CastError ''_id''), s)"
  by (simp add: find_one_def findById_def)

lemma delete_one_malformed:
  "castObjectId ident = None \<Longrightarrow>
   delete_one msg del M ev s ident = Some (Inr (CastError ''_id''), s)"
  by (simp add: delete_one_def findByIdAndDelete_def)

lemma update_one_malformed:
  "castObjectId ident = None \<Longrightarrow>
   update_one msg M ev s ident b = Some (Inr (CastError ''_id''), s)"
  by (simp add: update_one_def findByIdAndUpdate_def)

lemma hex24_sample: "hex24 ''65f0a1b2c3d4e5f601234567''"
  by (simp add: hex24_def is_hex_def)

lemma malformed_abc: "malformed ''abc''"
  by (simp add: malformed_def castObjectId_def)

lemma cast_update_name:
  "cast_update formSubmissionSchema [(''name'', VStr ''Jo'')] = Ok (SetFields [(''name'', VStr ''Jo'')])"
  by (simp add: cast_update_def is_operator_def is_object_def cast_field_def reserved_def
      risky_key_def formSubmissionSchema_def cast_def)

text \<open>
  C5, as the claim states it, fails: the identifier \<^verbatim>\<open>abc\<close> is malformed, the cast inside
  \<^verbatim>\<open>findById\<close> throws, and both the route of the server and the function answer 500.
\<close>

theorem malformed_identifier_counterexample:
  "get_api_forms_id production empty_db ''abc'' =
     Some ((reply 500 False (Some ''Error fetching form submission''))
             \<lparr> err := Some (Detail (CastError ''_id'')) \<rparr>, empty_db)
   \<and> handler formSubmissionSchema production reversing_engine empty_db (get_request ''abc'') =
     Some ((reply 500 False (Some ''Internal server error''))
             \<lparr> err := Some (Fixed ''Something went wrong'') \<rparr>, empty_db)"
  by (simp add: get_api_forms_id_def catch_route_def find_one_def findById_def castObjectId_def
      handler_def handler_switch_def get_request_def truthy_str_def production_def)

text \<open>
  C5, amended: an identifier of 24 hexadecimal digits that no stored record carries is
  answered 404 by findById, delete and (when the body passes the cast and the validators of
  the update) update, in the server and in the function; a malformed identifier is answered
  500 by all of them, since the cast of the identifier throws into the catch-all clause.
\<close>

theorem absent_identifier_404_malformed_500:
  "(hex24 ident \<and> find (has_id (map lower_char ident)) (docs s) = None \<longrightarrow>
      status_of (get_api_forms_id ev s ident) = Some 404
    \<and> status_of (handler M ev eng s (get_request ident)) = Some 404
    \<and> status_of (delete_api_forms_id ev s ident) = Some 404
    \<and> status_of (handler M ev eng s (delete_request ident)) = Some 404
    \<and> (cast_update formSubmissionSchema b = Ok u \<longrightarrow>
          status_of (put_api_forms_id ev s ident b) = Some 404)
    \<and> (cast_update M b = Ok u \<longrightarrow>
          status_of (handler M ev eng s (put_request ident b)) = Some 404))
   \<and> (malformed ident \<longrightarrow>
      status_of (get_api_forms_id ev s ident) = Some 500
    \<and> status_of (handler M ev eng s (get_request ident)) = Some 500
    \<and> status_of (delete_api_forms_id ev s ident) = Some 500
    \<and> status_of (handler M ev eng s (delete_request ident)) = Some 500
    \<and> status_of (put_api_forms_id ev s ident b) = Some 500
    \<and> status_of (handler M ev eng s (put_request ident b)) = Some 500)"
proof (intro conjI impI)
  assume h: "hex24 ident \<and> find (has_id (map lower_char ident)) (docs s) = None"
  then have c: "castObjectId ident = Some (map lower_char ident)"
    and f: "find (has_id (map lower_char ident)) (docs s) = None"
    and n: "ident \<noteq> []"
    by (simp_all add: castObjectId_hex24 hex24_nonempty)
  show "status_of (get_api_forms_id ev s ident) = Some 404"
    by (simp add: status_of_def get_api_forms_id_def catch_route_def find_one_absent [OF c f])
  show "status_of (handler M ev eng s (get_request ident)) = Some 404"
    using n by (simp add: status_of_def handler_def handler_switch_def get_request_def
        truthy_str_def find_one_absent [OF c f])
  show "status_of (delete_api_forms_id ev s ident) = Some 404"
    by (simp add: status_of_def delete_api_forms_id_def catch_route_def delete_one_absent [OF c f])
  show "status_of (handler M ev eng s (delete_request ident)) = Some 404"
    using n by (simp add: status_of_def handler_def handler_switch_def delete_request_def
        truthy_str_def delete_one_absent [OF c f])
  show "status_of (put_api_forms_id ev s ident b) = Some 404"
    if "cast_update formSubmissionSchema b = Ok u"
    by (simp add: status_of_def put_api_forms_id_def catch_route_def
        update_one_absent [OF c f that])
  show "status_of (handler M ev eng s (put_request ident b)) = Some 404"
    if "cast_update M b = Ok u"
    using n by (simp add: status_of_def handler_def handler_switch_def put_request_def
        truthy_str_def update_one_absent [OF c f that])
next
  assume "malformed ident"
  then have c: "castObjectId ident = None" and n: "ident \<noteq> []"
    by (simp_all add: malformed_def)
  show "status_of (get_api_forms_id ev s ident) = Some 500"
    by (simp add: status_of_def get_api_forms_id_def catch_route_def find_one_malformed [OF c])
  show "status_of (handler M ev eng s (get_request ident)) = Some 500"
    using n by (simp add: status_of_def handler_def handler_switch_def get_request_def
        truthy_str_def find_one_malformed [OF c])
  show "status_of (delete_api_forms_id ev s ident) = Some 500"
    by (simp add: status_of_def delete_api_forms_id_def catch_route_def delete_one_malformed [OF c])
  show "status_of (handler M ev eng s (delete_request ident)) = Some 500"
    using n by (simp add: status_of_def handler_def handler_switch_def delete_request_def
        truthy_str_def delete_one_malformed [OF c])
  show "status_of (put_api_forms_id ev s ident b) = Some 500"
    by (simp add: status_of_def put_api_forms_id_def catch_route_def update_one_malformed [OF c])
  show "status_of (handler M ev eng s (put_request ident b)) = Some 500"
    using n by (simp add: status_of_def handler_def handler_switch_def put_request_def
        truthy_str_def update_one_malformed [OF c])
qed

theorem absent_identifier_404_malformed_500_witness:
  "hex24 ''65f0a1b2c3d4e5f601234567''
   \<and> find (has_id (map lower_char ''65f0a1b2c3d4e5f601234567'')) (docs empty_db) = None
   \<and> cast_update formSubmissionSchema [(''name'', VStr ''Jo'')] = Ok (SetFields [(''name'', VStr ''Jo'')])
   \<and> status_of (get_api_forms_id production empty_db ''65f0a1b2c3d4e5f601234567'') = Some 404
   \<and> status_of (delete_api_forms_id production empty_db ''65f0a1b2c3d4e5f601234567'') = Some 404
   \<and> status_of (put_api_forms_id production empty_db ''65f0a1b2c3d4e5f601234567''
        [(''name'', VStr ''Jo'')]) = Some 404
   \<and> status_of (handler formSubmissionSchema production reversing_engine empty_db
        (put_request ''65f0a1b2c3d4e5f601234567'' [(''name'', VStr ''Jo'')])) = Some 404
   \<and> malformed ''abc''
   \<and> status_of (get_api_forms_id production empty_db ''abc'') = Some 500
   \<and> status_of (put_api_forms_id production empty_db ''abc'' [(''name'', VStr ''Jo'')]) = Some 500
   \<and> status_of (handler formSubmissionSchema production reversing_engine empty_db
        (delete_request ''abc'')) = Some 500"
proof -
  have e: "find (has_id (map lower_char ''65f0a1b2c3d4e5f601234567'')) (docs empty_db) = None"
    by (simp add: empty_db_def)
  show ?thesis
    using absent_identifier_404_malformed_500 [of "''65f0a1b2c3d4e5f601234567''" empty_db
        production formSubmissionSchema reversing_engine "[(''name'', VStr ''Jo'')]"
        "SetFields [(''name'', VStr ''Jo'')]"]
      absent_identifier_404_malformed_500 [of "''abc''" empty_db
        production formSubmissionSchema reversing_engine "[(''name'', VStr ''Jo'')]"
        "SetFields [(''name'', VStr ''Jo'')]"]
      hex24_sample malformed_abc cast_update_name e
    by simp
qed

section \<open>A truthy \<^verbatim>\<open>csvData\<close> that is no array\<close>

text \<open>
  C10: when the body of a POST carries a \<^verbatim>\<open>csvData\<close> that is truthy but no array, the
  function \<^verbatim>\<open>api/forms.js\<close> enters its import branch, where \<^verbatim>\<open>body.csvData.map\<close> throws,
  and answers 500, leaving the collection as it was; the route \<^verbatim>\<open>POST /api/forms/csv\<close> of
  the server and the function \<^verbatim>\<open>api/csv-import.js\<close>, which test
  \<^verbatim>\<open>Array.isArray(csvData)\<close>, answer the same body 400.
\<close>

theorem non_array_csvData_500_versus_400:
  assumes "map_of b ''csvData'' = Some c" and "truthy c" and "not_array c"
  shows "handler M ev eng s (post_request b) =
           Some ((reply 500 False (Some ''Internal server error''))
                   \<lparr> err := Some (if node_env ev = Some ''development'' then Detail TypeError
                                    else Fixed ''Something went wrong'') \<rparr>, s)
       \<and> post_api_forms_csv ev s b = Some (reply 400 False (Some ''Invalid CSV data format''), s)
       \<and> csv_import_handler registered ev s ''POST'' b =
           Some (reply 400 False (Some ''Invalid CSV data format''), s)"
  using assms
  by (cases c; simp add: handler_def handler_switch_def post_api_forms_csv_def post_request_def
        csv_import_handler_def catch_route_def not_array_def)

theorem non_array_csvData_500_versus_400_witness:
  "map_of [(''csvData'', VStr ''name,email'')] ''csvData'' = Some (VStr ''name,email'')
   \<and> truthy (VStr ''name,email'') \<and> not_array (VStr ''name,email'')
   \<and> status_of (handler formSubmissionSchema production reversing_engine empty_db
        (post_request [(''csvData'', VStr ''name,email'')])) = Some 500
   \<and> status_of (post_api_forms_csv production empty_db [(''csvData'', VStr ''name,email'')])
        = Some 400
   \<and> status_of (csv_import_handler None production empty_db ''POST''
        [(''csvData'', VStr ''name,email'')]) = Some 400"
proof -
  have a: "map_of [(''csvData'', VStr ''name,email'')] ''csvData'' = Some (VStr ''name,email'')"
    by simp
  have b: "truthy (VStr ''name,email'')"
    by (simp add: truthy_def)
  have c: "not_array (VStr ''name,email'')"
    by (simp add: not_array_def)
  show ?thesis
    using non_array_csvData_500_versus_400 [OF a b c, of formSubmissionSchema production
        reversing_engine empty_db None] a b c
    by (simp add: status_of_def)
qed

section \<open>Error detail and the deployment mode\<close>

text \<open>
  What the catch clause of \<^verbatim>\<open>api/forms.js\<close> does: the message of the error is sent in
  development mode and replaced by a fixed text in every other mode.
\<close>

lemma handler_error_detail_gated:
  "handler_switch M ev eng s req = Some (Inr e, s') \<Longrightarrow>
   handler M ev eng s req =
     Some ((reply 500 False (Some ''Internal server error''))
             \<lparr> err := Some (if node_env ev = Some ''development'' then Detail e
                              else Fixed ''Something went wrong'') \<rparr>, s')"
  by (simp add: handler_def)

text \<open>
  C9 at inputs where the code departs from it: in production mode, a malformed identifier
  on \<^verbatim>\<open>GET /api/forms/:id\<close> and a row that fails validation on \<^verbatim>\<open>POST /api/forms/csv\<close>
  are answered 500 with the message of the error itself, where the function
  \<^verbatim>\<open>api/forms.js\<close> answers the same identifier with its fixed text.
\<close>

theorem route_error_detail_in_production:
  "node_env production = Some ''production''
   \<and> get_api_forms_id production empty_db ''abc'' =
       Some ((reply 500 False (Some ''Error fetching form submission''))
               \<lparr> err := Some (Detail (CastError ''_id'')) \<rparr>, empty_db)
   \<and> post_api_forms_csv production empty_db bad_row_import =
       Some ((reply 500 False (Some ''Error importing CSV data''))
               \<lparr> err := Some (Detail (ValidationError ''newsletter'')) \<rparr>,
             \<lparr> docs = [], oid_counter = 1 \<rparr>)
   \<and> handler formSubmissionSchema production reversing_engine empty_db (get_request ''abc'') =
       Some ((reply 500 False (Some ''Internal server error''))
               \<lparr> err := Some (Fixed ''Something went wrong'') \<rparr>, empty_db)"
  by code_simp

section \<open>The list routes: pages and order\<close>



















section \<open>Analytics and search\<close>
















section \<open>Casting, defaults and the saved document\<close>

lemma cast_string_range:
  "case cast SString v of Casts w \<Rightarrow> w = VNull \<or> (\<exists>s. w = VStr s) | _ \<Rightarrow> True"
  by (cases v) (simp_all add: cast_def)

lemma cast_boolean_range:
  "case cast SBoolean v of Casts w \<Rightarrow> w = VNull \<or> (\<exists>b. w = VBool b) | _ \<Rightarrow> True"
  by (cases v) (simp_all add: cast_def, blast+)

lemma cast_date_range:
  "case cast SDate v of Casts w \<Rightarrow> w = VNull \<or> (\<exists>d. w = VDate d) | _ \<Rightarrow> True"
  by (cases v) (simp_all add: cast_def)

lemma cast_idem:
  assumes "cast t v = Casts w"
  shows "cast t w = Casts w"
proof (cases t)
  case SString
  then show ?thesis
    using assms cast_string_range [of v] by (auto simp: cast_def)
next
  case SBoolean
  then show ?thesis
    using assms cast_boolean_range [of v] by (auto simp: cast_def)
next
  case SDate
  then show ?thesis
    using assms cast_date_range [of v] by (auto simp: cast_def)
next
  case SMixed
  then show ?thesis by (simp add: cast_def)
qed

lemma cast_field_conformant: "cast_field S mk k v = Ok w \<Longrightarrow> fits S k w"
  by (auto simp: cast_field_def fits_def cast_idem
      split: if_splits option.splits cast_result.splits)

lemma cast_field_same: "cast_field S mk k v = Ok w \<Longrightarrow> fits S k v \<Longrightarrow> w = v"
  by (auto simp: cast_field_def fits_def split: if_splits option.splits cast_result.splits)

lemma cast_field_not_reserved: "cast_field S mk k v = Ok w \<Longrightarrow> \<not> reserved k"
  by (auto simp: cast_field_def split: if_splits)

lemma cast_entries_Ok_Cons:
  "cast_entries S mk ((k, v) # rest) = Ok d \<Longrightarrow>
   \<exists>w rest'. cast_field S mk k v = Ok w \<and> cast_entries S mk rest = Ok rest' \<and> d = (k, w) # rest'"
  by (auto split: outcome.splits)

lemma cast_entries_conformant: "cast_entries S mk ob = Ok d \<Longrightarrow> conformant S d"
proof (induction ob arbitrary: d)
  case Nil
  then show ?case by (simp add: conformant_def)
next
  case (Cons kv ob)
  obtain k v where kv: "kv = (k, v)" by (cases kv)
  from Cons.prems obtain w rest' where
    w: "cast_field S mk k v = Ok w" "cast_entries S mk ob = Ok rest'" "d = (k, w) # rest'"
    unfolding kv by (blast dest: cast_entries_Ok_Cons)
  show ?case
    using Cons.IH [OF w(2)] cast_field_conformant [OF w(1)]
    by (simp add: w(3) conformant_def)
qed

lemma cast_entries_same: "cast_entries S mk ob = Ok d \<Longrightarrow> conformant S ob \<Longrightarrow> d = ob"
proof (induction ob arbitrary: d)
  case Nil
  then show ?case by simp
next
  case (Cons kv ob)
  obtain k v where kv: "kv = (k, v)" by (cases kv)
  from Cons.prems(1) obtain w rest' where
    w: "cast_field S mk k v = Ok w" "cast_entries S mk ob = Ok rest'" "d = (k, w) # rest'"
    unfolding kv by (blast dest: cast_entries_Ok_Cons)
  have c: "fits S k v" "conformant S ob"
    using Cons.prems(2) by (simp_all add: conformant_def kv)
  show ?case
    using Cons.IH [OF w(2) c(2)] cast_field_same [OF w(1) c(1)] by (simp add: w(3) kv)
qed

lemma cast_entries_keys: "cast_entries S mk ob = Ok d \<Longrightarrow> map fst d = map fst ob"
proof (induction ob arbitrary: d)
  case Nil
  then show ?case by simp
next
  case (Cons kv ob)
  obtain k v where kv: "kv = (k, v)" by (cases kv)
  from Cons.prems obtain w rest' where
    w: "cast_field S mk k v = Ok w" "cast_entries S mk ob = Ok rest'" "d = (k, w) # rest'"
    unfolding kv by (blast dest: cast_entries_Ok_Cons)
  show ?case using Cons.IH [OF w(2)] by (simp add: w(3) kv)
qed

lemma cast_entries_not_reserved:
  "cast_entries S mk ob = Ok d \<Longrightarrow> k \<in> fst ` set ob \<Longrightarrow> \<not> reserved k"
proof (induction ob arbitrary: d)
  case Nil
  then show ?case by simp
next
  case (Cons kv ob)
  obtain k' v where kv: "kv = (k', v)" by (cases kv)
  from Cons.prems(1) obtain w rest' where
    w: "cast_field S mk k' v = Ok w" "cast_entries S mk ob = Ok rest'" "d = (k', w) # rest'"
    unfolding kv by (blast dest: cast_entries_Ok_Cons)
  show ?case
    using Cons.IH [OF w(2)] Cons.prems(2) cast_field_not_reserved [OF w(1)]
    by (auto simp: kv)
qed


lemma map_of_keys_eq: "map fst d = map fst ob \<Longrightarrow> (map_of d k = None) = (map_of ob k = None)"
  by (metis map_of_eq_None_iff set_map)

lemma add_default_lookup:
  "map_of (add_default t kd d) k =
     (if map_of d k = None \<and> k = fst kd then Some (default_val t (snd kd)) else map_of d k)"
  by (auto simp: add_default_def map_add_def split: option.splits)

lemma fits_defaults:
  "fits formSubmissionSchema ''submittedAt'' (VDate t)"
  "fits formSubmissionSchema ''source'' (VStr ''form'')"
  by (simp_all add: fits_def formSubmissionSchema_def cast_def)

lemma add_default_conformant_date:
  "conformant formSubmissionSchema d \<Longrightarrow>
   conformant formSubmissionSchema (add_default t (''submittedAt'', DateNow) d)"
  by (simp add: add_default_def conformant_def default_val_def fits_defaults)

lemma add_default_conformant_source:
  "conformant formSubmissionSchema d \<Longrightarrow>
   conformant formSubmissionSchema (add_default t (''source'', Const (VStr ''form'')) d)"
  by (simp add: add_default_def conformant_def default_val_def fits_defaults)

lemma apply_defaults_form:
  "apply_defaults formSubmissionSchema t d =
     add_default t (''source'', Const (VStr ''form'')) (add_default t (''submittedAt'', DateNow) d)"
  by (simp add: apply_defaults_def formSubmissionSchema_def)

lemma apply_defaults_conformant:
  "conformant formSubmissionSchema d \<Longrightarrow>
   conformant formSubmissionSchema (apply_defaults formSubmissionSchema t d)"
  by (simp add: apply_defaults_form add_default_conformant_date add_default_conformant_source)

lemma apply_defaults_lookup:
  "map_of (apply_defaults formSubmissionSchema t d) k =
     (if map_of d k = None \<and> k = ''submittedAt'' then Some (VDate t)
      else if map_of d k = None \<and> k = ''source'' then Some (VStr ''form'')
      else map_of d k)"
  by (auto simp: apply_defaults_form add_default_lookup default_val_def)

lemma apply_defaults_complete:
  "map_of d ''submittedAt'' \<noteq> None \<Longrightarrow> map_of d ''source'' \<noteq> None \<Longrightarrow>
   apply_defaults formSubmissionSchema t d = d"
  by (auto simp: apply_defaults_form add_default_def)


lemma fits_meta:
  "fits formSubmissionSchema ''_id'' v" "fits formSubmissionSchema ''createdAt'' v"
  "fits formSubmissionSchema ''updatedAt'' v" "fits formSubmissionSchema ''__v'' v"
  by (simp_all add: fits_def formSubmissionSchema_def)

lemma conformant_update:
  "conformant S d \<Longrightarrow> fits S k v \<Longrightarrow> conformant S (AList.update k v d)"
  by (induction d) (auto simp: conformant_def)

lemma conformant_stamp:
  "conformant formSubmissionSchema d \<Longrightarrow> conformant formSubmissionSchema (stamp t d)"
  by (simp add: stamp_def conformant_def fits_meta)

lemma hex_char_ok: "d < 16 \<Longrightarrow> is_hex (hex_char d) \<and> lower_char (hex_char d) = hex_char d"
  by (auto simp: hex_char_def is_hex_def lower_char_def)

lemma hex_digits_ok:
  "length (hex_digits w n) = w \<and> list_all is_hex (hex_digits w n)
   \<and> map lower_char (hex_digits w n) = hex_digits w n"
  by (induction w arbitrary: n) (simp_all add: hex_char_ok)

lemma castObjectId_new_oid: "castObjectId (hex_digits 24 n) = Some (hex_digits 24 n)"
  using hex_digits_ok [of 24 n] by (simp add: castObjectId_def)

lemma find_appended:
  "has_id oid d \<Longrightarrow> doc_id d \<notin> set (map doc_id ds) \<Longrightarrow> find (has_id oid) (ds @ [d]) = Some d"
  by (induction ds) (auto simp: has_id_def)

lemma save_new_accepts:
  assumes "save_new S t s ob = Ok (saved, s')"
  shows "\<exists>d0. cast_entries S ValidationError ob = Ok d0
     \<and> saved = stamp t ((''_id'', VOid (new_oid s)) # apply_defaults S t d0)
     \<and> docs s' = docs s @ [saved] \<and> oid_counter s' = Suc (oid_counter s)
     \<and> doc_id saved \<notin> set (map doc_id (docs s))"
  using assms
  by (auto simp: save_new_def new_document_def validate_doc_def insert_doc_def Let_def
      split: outcome.splits sum.splits if_splits)

lemma stamp_lookup:
  "map_of (stamp t d) k =
     (case map_of d k of Some v \<Rightarrow> Some v
      | None \<Rightarrow> map_of [(''createdAt'', VDate t), (''updatedAt'', VDate t), (''__v'', VNum 0)] k)"
  by (simp add: stamp_def map_add_def split: option.splits)

section \<open>Create, then find\<close>

lemma saved_lookup:
  assumes "k \<noteq> ''_id''"
  shows "map_of (stamp t ((''_id'', VOid oid) # apply_defaults formSubmissionSchema t d0)) k =
     (case map_of (apply_defaults formSubmissionSchema t d0) k of Some v \<Rightarrow> Some v
      | None \<Rightarrow> map_of [(''createdAt'', VDate t), (''updatedAt'', VDate t), (''__v'', VNum 0)] k)"
  using assms by (simp add: stamp_lookup)

lemma submit_then_find:
  assumes conf: "conformant formSubmissionSchema x"
    and sv: "save_new formSubmissionSchema t s (with_prop x ''source'' (VStr ''form''))
             = Ok (saved, s')"
  shows "map_of saved ''_id'' = Some (VOid (new_oid s))"
    and "findById formSubmissionSchema t' s' (new_oid s) = Ok (Some saved)"
    and "\<forall>f\<in>set core_fields. map_of saved f = map_of x f"
    and "map_of saved ''source'' = Some (VStr ''form'')"
    and "map_of saved ''submittedAt'' =
           (case map_of x ''submittedAt'' of None \<Rightarrow> Some (VDate t) | Some v \<Rightarrow> Some v)"
proof -
  let ?ob = "with_prop x ''source'' (VStr ''form'')"
  from save_new_accepts [OF sv] obtain d0 where
    d0: "cast_entries formSubmissionSchema ValidationError ?ob = Ok d0"
    and saved: "saved = stamp t ((''_id'', VOid (new_oid s)) # apply_defaults formSubmissionSchema t d0)"
    and docs: "docs s' = docs s @ [saved]"
    and fresh: "doc_id saved \<notin> set (map doc_id (docs s))"
    by blast
  have cob: "conformant formSubmissionSchema ?ob"
    using conf by (simp add: with_prop_def conformant_update fits_defaults)
  have same: "d0 = ?ob"
    using cast_entries_same [OF d0 cob] .
  have look: "map_of d0 k = (if k = ''source'' then Some (VStr ''form'') else map_of x k)" for k
    by (simp add: same with_prop_def update_conv')
  show id: "map_of saved ''_id'' = Some (VOid (new_oid s))"
    by (simp add: saved stamp_lookup)
  show src: "map_of saved ''source'' = Some (VStr ''form'')"
    by (simp add: saved saved_lookup apply_defaults_lookup look)
  show sub: "map_of saved ''submittedAt'' =
           (case map_of x ''submittedAt'' of None \<Rightarrow> Some (VDate t) | Some v \<Rightarrow> Some v)"
    by (simp add: saved saved_lookup apply_defaults_lookup look split: option.splits)
  have other: "map_of saved k = map_of x k"
    if "k \<notin> set [''_id'', ''source'', ''submittedAt'', ''createdAt'', ''updatedAt'', ''__v'']"
    for k
    using that
    by (simp add: saved saved_lookup apply_defaults_lookup look split: option.splits)
  show "\<forall>f\<in>set core_fields. map_of saved f = map_of x f"
    by (intro ballI other) (auto simp: core_fields_def)
  have csaved: "conformant formSubmissionSchema saved"
    unfolding saved
    using cast_entries_conformant [OF d0]
    by (intro conformant_stamp) (simp add: conformant_def fits_meta
        apply_defaults_conformant [unfolded conformant_def])
  have full: "apply_defaults formSubmissionSchema t' saved = saved"
    using src sub by (intro apply_defaults_complete) (simp_all split: option.splits)
  have "has_id (new_oid s) saved"
    using id by (simp add: has_id_def doc_id_def)
  then have "find (has_id (new_oid s)) (docs s') = Some saved"
    using fresh by (simp add: docs find_appended)
  then show "findById formSubmissionSchema t' s' (new_oid s) = Ok (Some saved)"
    by (simp add: findById_def new_oid_def castObjectId_new_oid hydrate_def csaved full)
qed


lemma submit_form_201:
  "submit_form M ev s b = Some (Inl r, s') \<Longrightarrow>
   \<exists>saved. save_new M (now ev) s (with_prop b ''source'' (VStr ''form'')) = Ok (saved, s')
     \<and> r = (reply 201 True (Some ''Form submitted successfully!'')) \<lparr> payload := Some (One saved) \<rparr>"
  by (auto simp: submit_form_def split: outcome.splits)

lemma catch_route_not_500:
  "catch_route msg a = Some (r, s') \<Longrightarrow> status r \<noteq> 500 \<Longrightarrow> a = Some (Inl r, s')"
  by (auto simp: catch_route_def split: option.splits sum.splits prod.splits)

text \<open>
  C1, amended: for every submission body \<open>x\<close> that a single-submission create accepts
  (201) and whose declared fields already hold values of their declared types (strings,
  a boolean for newsletter, or null), findById on the returned identifier yields the saved
  record; its declared fields equal those of \<open>x\<close>, its identifier is the server-assigned
  one, its source is \<^verbatim>\<open>form\<close>, and its \<open>submittedAt\<close> is the time of the request unless \<open>x\<close>
  carries one. The function answers as the server does when the body has no truthy
  \<^verbatim>\<open>csvData\<close>.
\<close>

theorem create_then_find_round_trip:
  assumes "conformant formSubmissionSchema x"
    and "post_api_forms ev s x = Some (r, s')" and "status r = 201"
  shows "\<exists>saved ident.
       payload r = Some (One saved) \<and> map_of saved ''_id'' = Some (VOid ident)
     \<and> get_api_forms_id ev' s' ident = Some (found_form saved, s')
     \<and> (\<forall>f\<in>set core_fields. map_of saved f = map_of x f)
     \<and> map_of saved ''source'' = Some (VStr ''form'')
     \<and> map_of saved ''submittedAt'' =
          (case map_of x ''submittedAt'' of None \<Rightarrow> Some (VDate (now ev)) | Some v \<Rightarrow> Some v)
     \<and> (\<not> has_csvData x \<longrightarrow>
          handler formSubmissionSchema ev eng s (post_request x) = Some (r, s')
        \<and> handler formSubmissionSchema ev' eng s' (get_request ident) = Some (found_form saved, s'))"
proof -
  have "submit_form formSubmissionSchema ev s x = Some (Inl r, s')"
    using assms(2,3) by (intro catch_route_not_500) (simp_all add: post_api_forms_def)
  note sub = this
  then obtain saved where
    sv: "save_new formSubmissionSchema (now ev) s (with_prop x ''source'' (VStr ''form''))
           = Ok (saved, s')"
    and r: "r = (reply 201 True (Some ''Form submitted successfully!''))
              \<lparr> payload := Some (One saved) \<rparr>"
    by (blast dest: submit_form_201)
  note facts = submit_then_find [OF assms(1) sv]
  have ne: "new_oid s \<noteq> []"
    using hex_digits_ok [of 24 "oid_counter s"] by (auto simp: new_oid_def)
  have one: "find_one msg formSubmissionSchema ev' s' (new_oid s) = Some (Inl (found_form saved), s')"
    for msg
    by (simp add: find_one_def facts(2) found_form_def)
  have get: "get_api_forms_id ev' s' (new_oid s) = Some (found_form saved, s')"
    by (simp add: get_api_forms_id_def one catch_route_def)
  have post: "handler formSubmissionSchema ev eng s (post_request x) = Some (r, s')"
    if "\<not> has_csvData x"
    using that sub
    by (simp add: handler_def handler_switch_def post_request_def has_csvData_def)
  have hget: "handler formSubmissionSchema ev' eng s' (get_request (new_oid s))
       = Some (found_form saved, s')"
    using ne by (simp add: handler_def handler_switch_def get_request_def truthy_str_def one)
  show ?thesis
    using facts(1,3,4,5) get post hget
    by (intro exI [of _ saved] exI [of _ "new_oid s"]) (simp add: r)
qed

theorem create_then_find_round_trip_witness:
  "conformant formSubmissionSchema [(''name'', VStr ''Ann'')]
   \<and> post_api_forms production empty_db [(''name'', VStr ''Ann'')] =
       Some ((reply 201 True (Some ''Form submitted successfully!''))
               \<lparr> payload := Some (One first_form) \<rparr>, one_form)
   \<and> map_of first_form ''_id'' = Some (VOid ''000000000000000000000000'')
   \<and> get_api_forms_id production one_form ''000000000000000000000000''
       = Some (found_form first_form, one_form)
   \<and> map_of first_form ''name'' = Some (VStr ''Ann'')
   \<and> map_of first_form ''source'' = Some (VStr ''form'')"
proof -
  let ?r = "(reply 201 True (Some ''Form submitted successfully!''))
               \<lparr> payload := Some (One first_form) \<rparr>"
  have a: "conformant formSubmissionSchema [(''name'', VStr ''Ann'')]"
    by code_simp
  have p: "post_api_forms production empty_db [(''name'', VStr ''Ann'')] = Some (?r, one_form)"
    by code_simp
  have st: "status ?r = 201"
    by simp
  have i: "map_of first_form ''_id'' = Some (VOid ''000000000000000000000000'')"
    "map_of first_form ''name'' = Some (VStr ''Ann'')"
    "map_of first_form ''source'' = Some (VStr ''form'')"
    by (simp_all add: first_form_def)
  show ?thesis
    using create_then_find_round_trip [OF a p st, of production reversing_engine] a p i
    by auto
qed

text \<open>
  C1, as the claim states it, fails: the body \<^verbatim>\<open>{"name": 42, "newsletter": "yes"}\<close> is
  accepted, and the record read back holds the string \<^verbatim>\<open>"42"\<close> and the boolean
  \<^verbatim>\<open>true\<close>, the casts of the schema, where the body holds a number and a string.
\<close>

theorem cast_changes_fields_counterexample:
  "post_api_forms production empty_db untyped_form =
     Some ((reply 201 True (Some ''Form submitted successfully!''))
             \<lparr> payload := Some (One untyped_form_saved) \<rparr>,
           \<lparr> docs = [untyped_form_saved], oid_counter = 1 \<rparr>)
   \<and> get_api_forms_id production \<lparr> docs = [untyped_form_saved], oid_counter = 1 \<rparr>
       ''000000000000000000000000''
     = Some (found_form untyped_form_saved, \<lparr> docs = [untyped_form_saved], oid_counter = 1 \<rparr>)
   \<and> map_of untyped_form ''name'' = Some (VNum 42)
   \<and> map_of untyped_form_saved ''name'' = Some (VStr ''42'')
   \<and> map_of untyped_form ''newsletter'' = Some (VStr ''yes'')
   \<and> map_of untyped_form_saved ''newsletter'' = Some (VBool True)"
  by code_simp

section \<open>Bulk import\<close>
















section \<open>Update\<close>










end
